theory Spec2Isabelle
  imports Complex_Main
begin

section \<open>Line parser of the ExoMol definition files (exomol/utils.py)\<close>

text \<open>
  The two exception classes of \<^verbatim>\<open>utils.py\<close>; each carries its message.
\<close>

datatype line_error = ExomolLineCommentError string | ExomolLineValueError string


text \<open>
  The value returned by \<^verbatim>\<open>parse_exomol_line\<close>: the stripped string, or what
  \<^verbatim>\<open>val_type\<close> made of it.
\<close>

datatype 'a line_value = StrVal string | TypedVal 'a

text \<open>Python's \<^verbatim>\<open>str.strip()\<close> on ASCII text: the characters it removes.\<close>

definition is_space :: "char \<Rightarrow> bool" where
  "is_space c = (c \<in> set [CHR '' '', CHR 0x09, CHR 0x0A, CHR 0x0B, CHR 0x0C, CHR 0x0D,
                           CHR 0x1C, CHR 0x1D, CHR 0x1E, CHR 0x1F])"

definition strip :: "string \<Rightarrow> string" where
  "strip s = rev (dropWhile is_space (rev (dropWhile is_space s)))"

text \<open>\<^verbatim>\<open>str(n)\<close> for an integer, as the f-strings of the messages print it.\<close>

fun str_nat :: "nat \<Rightarrow> string" where
  "str_nat n = (if n < 10 then [''0123456789'' ! n]
                else str_nat (n div 10) @ [''0123456789'' ! (n mod 10)])"

definition str_int :: "int \<Rightarrow> string" where
  "str_int i = (if i < 0 then CHR ''-'' # str_nat (nat (- i)) else str_nat (nat i))"

text \<open>\<^verbatim>\<open>line.split('# ')\<close>: the pieces between the occurrences of the separator.\<close>

fun split_sep :: "string \<Rightarrow> string \<Rightarrow> string list" where
  "split_sep cur [] = [rev cur]"
| "split_sep cur [a] = [rev (a # cur)]"
| "split_sep cur (a # b # rest) =
     (if a = CHR ''#'' \<and> b = CHR '' '' then rev cur # split_sep [] rest
      else split_sep (a # cur) (b # rest))"

text \<open>
  The suffix \<^verbatim>\<open>f' in {file_name}'\<close>, appended \<^verbatim>\<open>if file_name:\<close>, that is when the
  name is neither \<^verbatim>\<open>None\<close> nor empty.
\<close>

fun in_file :: "string option \<Rightarrow> string" where
  "in_file None = []"
| "in_file (Some f) = (if f = [] then [] else '' in '' @ f)"

text \<open>
  The \<^verbatim>\<open>while True\<close> loop: pop the top line, strip it, stop at the first line that is
  not empty. The result is the line with its number (\<open>None\<close> when \<^verbatim>\<open>pop(0)\<close> raised
  IndexError), the lines that remain in the caller's list, and the warnings issued.
\<close>

fun pop_line :: "int \<Rightarrow> string option \<Rightarrow> bool \<Rightarrow> string list \<Rightarrow> string list
    \<Rightarrow> (string \<times> int) option \<times> string list \<times> string list" where
  "pop_line n_orig file_name raise_warnings ws [] = (None, [], ws)"
| "pop_line n_orig file_name raise_warnings ws (l # ls) =
     (let line = strip l; line_num = n_orig - int (length ls) in
      if line \<noteq> [] then (Some (line, line_num), ls, ws)
      else pop_line n_orig file_name raise_warnings
             (if raise_warnings
              then ws @ [''Empty line detected on line '' @ str_int line_num @ in_file file_name]
              else ws) ls)"

text \<open>
  \<^verbatim>\<open>parse_exomol_line(lines, n_orig, expected_comment, file_name, val_type, raise_warnings)\<close>.
  The list \<^verbatim>\<open>lines\<close> is mutated in place, so the model returns it next to the result,
  on the error paths too. \<^verbatim>\<open>val_type\<close> is a callable that raises ValueError where the
  model's converter returns \<open>None\<close>.
\<close>

definition parse_exomol_line ::
  "string list \<Rightarrow> int \<Rightarrow> string option \<Rightarrow> string option \<Rightarrow> (string \<Rightarrow> 'a option) option
    \<Rightarrow> bool \<Rightarrow> (line_error + 'a line_value) \<times> string list \<times> string list" where
  "parse_exomol_line lines n_orig expected_comment file_name val_type raise_warnings =
     (case pop_line n_orig file_name raise_warnings [] lines of
        (None, ls, ws) \<Rightarrow>
          (Inl (ExomolLineValueError (''Run out of lines'' @ in_file file_name)), ls, ws)
      | (Some (line, line_num), ls, ws) \<Rightarrow>
          (case split_sep [] line of
             [v, comment] \<Rightarrow>
               (let val = strip v;
                    ws' = (if Some comment \<noteq> expected_comment \<and> raise_warnings
                           then ws @ [''Unexpected comment detected on line '' @ str_int line_num
                                      @ ''!'' @ in_file file_name]
                           else ws)
                in case val_type of
                     None \<Rightarrow> (Inr (StrVal val), ls, ws')
                   | Some conv \<Rightarrow>
                       (case conv val of
                          None \<Rightarrow>
                            (Inl (ExomolLineValueError
                                   (''Unexpected value type detected on line ''
                                    @ str_int line_num @ in_file file_name)), ls, ws)
                        | Some x \<Rightarrow> (Inr (TypedVal x), ls, ws')))
           | _ \<Rightarrow>
               (Inl (ExomolLineCommentError
                      (''Unexpected line format detected on line ''
                       @ str_int line_num @ in_file file_name)), ls, ws)))"





section \<open>Header of the states file (exomol/parse_def.py)\<close>

record quantum =
  label :: string
  format :: string
  description :: string

text \<open>The fields of \<^verbatim>\<open>ExomolDef\<close> that its methods read.\<close>

record exomol_def =
  lifetime_availability :: bool
  lande_factor_availability :: bool
  quanta :: "quantum list"

definition get_quanta_labels :: "exomol_def \<Rightarrow> string list" where
  "get_quanta_labels d = map label (quanta d)"

definition get_states_header_mandatory :: "exomol_def \<Rightarrow> string list" where
  "get_states_header_mandatory d =
     [''i'', ''E'', ''g_tot'', ''J'']
     @ (if lifetime_availability d then [''tau''] else [])
     @ (if lande_factor_availability d then [''g_J''] else [])"

definition get_states_header :: "exomol_def \<Rightarrow> string list" where
  "get_states_header d = get_states_header_mandatory d @ get_quanta_labels d"

section \<open>Floating-point cells\<close>

text \<open>
  A float64 cell of a pandas table: a finite value (kept as an exact rational, so no
  rounding error is modelled), an infinity, or NaN, which is also what a missing cell
  holds.
\<close>

datatype flt = Fin rat | PInf | NInf | NaN

fun flt_lt :: "flt \<Rightarrow> flt \<Rightarrow> bool" where
  "flt_lt NaN _ = False"
| "flt_lt _ NaN = False"
| "flt_lt (Fin a) (Fin b) = (a < b)"
| "flt_lt (Fin a) PInf = True"
| "flt_lt NInf (Fin b) = True"
| "flt_lt NInf PInf = True"
| "flt_lt _ _ = False"

fun flt_eq :: "flt \<Rightarrow> flt \<Rightarrow> bool" where
  "flt_eq NaN _ = False"
| "flt_eq _ NaN = False"
| "flt_eq a b = (a = b)"

definition flt_le :: "flt \<Rightarrow> flt \<Rightarrow> bool" where
  "flt_le a b = (flt_lt a b \<or> flt_eq a b)"

fun flt_add :: "flt \<Rightarrow> flt \<Rightarrow> flt" where
  "flt_add NaN _ = NaN"
| "flt_add _ NaN = NaN"
| "flt_add (Fin a) (Fin b) = Fin (a + b)"
| "flt_add PInf NInf = NaN"
| "flt_add NInf PInf = NaN"
| "flt_add PInf _ = PInf"
| "flt_add _ PInf = PInf"
| "flt_add NInf _ = NInf"
| "flt_add _ NInf = NInf"

text \<open>Division, with numpy's results for a zero divisor (the sign of zero is not modelled).\<close>

fun flt_div :: "flt \<Rightarrow> flt \<Rightarrow> flt" where
  "flt_div NaN _ = NaN"
| "flt_div _ NaN = NaN"
| "flt_div (Fin a) (Fin b) =
     (if b = 0 then (if a = 0 then NaN else if 0 < a then PInf else NInf) else Fin (a / b))"
| "flt_div (Fin a) _ = Fin 0"
| "flt_div PInf (Fin b) = (if 0 \<le> b then PInf else NInf)"
| "flt_div NInf (Fin b) = (if 0 \<le> b then NInf else PInf)"
| "flt_div _ _ = NaN"

text \<open>\<^verbatim>\<open>round(x, 5)\<close> on a pandas Series: to five decimals, halves to the even neighbour.\<close>

definition rint :: "rat \<Rightarrow> int" where
  "rint x = (let f = \<lfloor>x\<rfloor>; d = x - of_int f in
             if d < 1 / 2 then f else if 1 / 2 < d then f + 1
             else if even f then f else f + 1)"

fun round5 :: "flt \<Rightarrow> flt" where
  "round5 (Fin a) = Fin (of_int (rint (a * 100000)) / 100000)"
| "round5 x = x"

section \<open>State lumping (exomol/process_dataset.py)\<close>

text \<open>
  One row of a states chunk: the index column \<^verbatim>\<open>i\<close> (the index of the data frame), the
  columns \<^verbatim>\<open>E\<close>, \<^verbatim>\<open>g_tot\<close>, \<^verbatim>\<open>J\<close>, and the remaining columns of the header by name.
\<close>

record 'v state_row =
  idx :: int
  E :: rat
  g_tot :: rat
  J :: rat
  cols :: "string \<Rightarrow> 'v"

text \<open>A row of the running table \<^verbatim>\<open>lumped_states\<close> with its three float64 columns.\<close>

record lumped_row =
  lump_J :: flt
  sum_w :: flt
  sum_en_x_w :: flt

text \<open>A row of the final table: \<^verbatim>\<open>J\<close> and the rounded \<^verbatim>\<open>E\<close>.\<close>

record final_row =
  final_J :: flt
  final_E :: flt

text \<open>
  The attributes of a \<^verbatim>\<open>DatasetProcessor\<close>. A data frame indexed by the group key is a
  map from keys to rows; the key of a group is the list of its values in the resolved
  columns.
\<close>

record 'v dataset_processor =
  states_header :: "string list"
  resolve_el :: "string list"
  resolve_vib :: "string list"
  only_with :: "(string \<times> 'v) list"
  energy_max :: "flt option"
  resolved_quanta :: "string list"
  lumped_states :: "('v list \<rightharpoonup> final_row) option"
  states_map_lumped_to_original :: "'v list \<rightharpoonup> int set"
  states_map_original_to_lumped :: "int \<rightharpoonup> 'v list"

text \<open>
  \<^verbatim>\<open>load_dataframe_chunks\<close> with \<^verbatim>\<open>chunksize=n\<close>: consecutive blocks of \<open>n\<close> rows, the
  last one shorter.
\<close>

fun chunks_of :: "nat \<Rightarrow> 'a list \<Rightarrow> 'a list list" where
  "chunks_of n xs =
     (if n = 0 \<or> xs = [] then [] else take n xs # chunks_of n (drop n xs))"

text \<open>
  The mask of \<^verbatim>\<open>process_states\<close>: every \<^verbatim>\<open>only_with\<close> column equals its value, and
  \<^verbatim>\<open>E <= energy_max\<close> when there is a ceiling.
\<close>

definition survives :: "'v dataset_processor \<Rightarrow> 'v state_row \<Rightarrow> bool" where
  "survives dp r =
     (list_all (\<lambda>(q, val). cols r q = val) (only_with dp)
      \<and> (case energy_max dp of None \<Rightarrow> True | Some m \<Rightarrow> flt_le (Fin (E r)) m))"

definition group_key :: "'v dataset_processor \<Rightarrow> 'v state_row \<Rightarrow> 'v list" where
  "group_key dp r = map (cols r) (resolved_quanta dp)"

text \<open>
  \<^verbatim>\<open>_process_state_group(df)\<close> on the rows of one group, in chunk order. It records the
  indices of the group in \<^verbatim>\<open>states_map_lumped_to_original\<close> (the state passed in and
  out), takes the \<^verbatim>\<open>J\<close> of the first row of minimal \<^verbatim>\<open>E\<close>, and sums \<^verbatim>\<open>g_tot\<close> and
  \<^verbatim>\<open>E * g_tot\<close> over the rows with that \<^verbatim>\<open>J\<close>. pandas calls it on groups that have a row.
\<close>

fun process_state_group ::
  "'v dataset_processor \<Rightarrow> ('v list \<rightharpoonup> int set) \<Rightarrow> 'v state_row list
    \<Rightarrow> lumped_row \<times> ('v list \<rightharpoonup> int set)" where
  "process_state_group dp l2o (r # rs) =
     (let df = r # rs;
          lumped_state = group_key dp r;
          l2o' = l2o(lumped_state \<mapsto>
                   (case l2o lumped_state of None \<Rightarrow> {} | Some s \<Rightarrow> s) \<union> set (map idx df));
          E_min = fold min (map E rs) (E r);
          min_en_j = J (hd (filter (\<lambda>x. E x = E_min) df));
          sub_df = filter (\<lambda>x. J x = min_en_j) df
      in (\<lparr>lump_J = Fin min_en_j,
           sum_w = Fin (sum_list (map g_tot sub_df)),
           sum_en_x_w = Fin (sum_list (map (\<lambda>x. E x * g_tot x) sub_df))\<rparr>, l2o'))"

text \<open>
  \<^verbatim>\<open>chunk.groupby(self.resolved_quanta).apply(self._process_state_group)\<close>: one call per
  key that occurs in the chunk, on the rows with that key; the results form a table
  indexed by the key. pandas visits the keys in sorted order, the model in the order of
  their first row; the calls touch different keys of both maps.
\<close>

definition apply_groups ::
  "'v dataset_processor \<Rightarrow> ('v list \<rightharpoonup> int set) \<Rightarrow> 'v state_row list
    \<Rightarrow> ('v list \<rightharpoonup> lumped_row) \<times> ('v list \<rightharpoonup> int set)" where
  "apply_groups dp l2o chunk =
     fold (\<lambda>k (tab, m).
             case process_state_group dp m (filter (\<lambda>r. group_key dp r = k) chunk) of
               (row, m') \<Rightarrow> (tab(k \<mapsto> row), m'))
          (remdups (map (group_key dp) chunk)) (Map.empty, l2o)"

text \<open>A column of a table read at a key: NaN where the table has no such row.\<close>

definition cell :: "('k \<rightharpoonup> lumped_row) \<Rightarrow> (lumped_row \<Rightarrow> flt) \<Rightarrow> 'k \<Rightarrow> flt" where
  "cell tab c k = (case tab k of None \<Rightarrow> NaN | Some row \<Rightarrow> c row)"

text \<open>
  \<^verbatim>\<open>a.lt(b, fill_value='inf')\<close> at one key of the aligned index: a NaN on exactly one side
  is replaced by infinity before the comparison.
\<close>

definition lt_fill :: "flt \<Rightarrow> flt \<Rightarrow> bool" where
  "lt_fill a b =
     flt_lt (if a = NaN \<and> b \<noteq> NaN then PInf else a) (if b = NaN \<and> a \<noteq> NaN then PInf else b)"

text \<open>
  The body of the loop of \<^verbatim>\<open>process_states\<close> for one chunk, line by line. The new
  table \<^verbatim>\<open>lumped_states_updated\<close> is created with the union of the indices (the keys of
  the running table and of \<^verbatim>\<open>reset_index\<close>) and no data, so every cell starts as NaN;
  the rows of \<^verbatim>\<open>reset_index\<close> get the chunk's \<^verbatim>\<open>J\<close> and zero sums; the rows whose
  \<^verbatim>\<open>J\<close> equals the chunk's get the chunk's sums added. Two tables are aligned on the
  whole key, as pandas does for one resolved column; a chunk with no surviving row is
  a chunk table with no row.
\<close>

definition process_chunk ::
  "'v dataset_processor \<Rightarrow> ('v list \<rightharpoonup> lumped_row) \<times> ('v list \<rightharpoonup> int set)
    \<Rightarrow> 'v state_row list \<Rightarrow> ('v list \<rightharpoonup> lumped_row) \<times> ('v list \<rightharpoonup> int set)" where
  "process_chunk dp st chunk0 =
     (case st of (lumped, l2o) \<Rightarrow>
      let chunk = filter (survives dp) chunk0 in
      case apply_groups dp l2o chunk of (lumped_states_chunk, l2o') \<Rightarrow>
      let reset_mask = (\<lambda>k. lt_fill (cell lumped_states_chunk lump_J k) (cell lumped lump_J k));
          updated0 = (\<lambda>k. if k \<in> dom lumped \<union> Collect reset_mask
                          then Some \<lparr>lump_J = NaN, sum_w = NaN, sum_en_x_w = NaN\<rparr> else None);
          updated1 = (\<lambda>k. if reset_mask k
                          then map_option (\<lambda>row. row\<lparr>lump_J := cell lumped_states_chunk lump_J k\<rparr>)
                                 (updated0 k)
                          else updated0 k);
          updated2 = (\<lambda>k. if reset_mask k
                          then map_option (\<lambda>row. row\<lparr>sum_w := Fin 0, sum_en_x_w := Fin 0\<rparr>)
                                 (updated1 k)
                          else updated1 k);
          update_mask = (\<lambda>k. flt_eq (cell updated2 lump_J k) (cell lumped_states_chunk lump_J k));
          updated3 = (\<lambda>k. if update_mask k
                          then map_option
                                 (\<lambda>row. row\<lparr>sum_w := flt_add (sum_w row) (cell lumped_states_chunk sum_w k),
                                            sum_en_x_w := flt_add (sum_en_x_w row)
                                                            (cell lumped_states_chunk sum_en_x_w k)\<rparr>)
                                 (updated2 k)
                          else updated2 k)
      in (updated3, l2o'))"

text \<open>
  \<^verbatim>\<open>process_states\<close> over the chunks of the states file: the loop, then the weighted
  mean rounded to five decimals, with the two sum columns dropped. The rows are typed,
  so the check of the chunk's columns in \<^verbatim>\<open>states_chunks\<close> has nothing to reject.
  \<^verbatim>\<open>states_map_original_to_lumped\<close> is not assigned.
\<close>

definition finalise :: "lumped_row \<Rightarrow> final_row" where
  "finalise row =
     \<lparr>final_J = lump_J row, final_E = round5 (flt_div (sum_en_x_w row) (sum_w row))\<rparr>"

definition process_states :: "'v dataset_processor \<Rightarrow> 'v state_row list list \<Rightarrow> 'v dataset_processor" where
  "process_states dp states_chunks =
     (case fold (\<lambda>chunk st. process_chunk dp st chunk) states_chunks
             (Map.empty, states_map_lumped_to_original dp) of
        (lumped, l2o) \<Rightarrow>
          dp\<lparr>lumped_states := Some (\<lambda>k. map_option finalise (lumped k)),
             states_map_lumped_to_original := l2o\<rparr>)"

section \<open>Molecule inputs (read_inputs.py) and the processor's constructor\<close>

type_synonym path = "string list"

text \<open>
  The condition that a raised \<^verbatim>\<open>MoleculeInputError\<close> reports, in place of its formatted
  message; \<^verbatim>\<open>DefParseError\<close> is the error of the definition parser.
\<close>

datatype input_check =
    MissingMandatory | MissingResolve | MolDirNotFound | IsoDirNotFound | DatasetDirNotFound
  | DefFileNotFound | StatesFileNotFound | NoTransFiles | UnexpectedStatesHeader
  | CommonResolve | UnsupportedResolve | UnrecognisedOnlyWith | StatesColumns | TransColumns
  | NeedsResolve | Unrecognised string

datatype input_error = MoleculeInputError input_check | DefParseError string

text \<open>What the constructor asks of the file system, in the order it asks.\<close>

datatype fs_access =
  IsDir path | IsFile path | Glob path string | ParseDef path | NumColumns path

text \<open>
  What \<^verbatim>\<open>MoleculeInput\<close> reads of the \<^verbatim>\<open>DefParser\<close> of the \<^verbatim>\<open>exomole\<close> package after
  \<^verbatim>\<open>parse()\<close>.
\<close>

record def_parser_result =
  parsed_lifetime_availability :: bool
  parsed_lande_factor_availability :: bool
  parsed_quanta_labels :: "string list"

text \<open>
  The world outside the constructor: \<^verbatim>\<open>EXOMOL_DATA_DIR\<close> of the configuration module,
  the file system behind \<^verbatim>\<open>Path.is_dir\<close>, \<^verbatim>\<open>Path.is_file\<close> and the sorted
  \<^verbatim>\<open>Path.glob\<close>, and the two functions of the \<^verbatim>\<open>exomole\<close> package:
  \<^verbatim>\<open>DefParser(path).parse()\<close>, which raises \<^verbatim>\<open>DefParseError\<close> or yields the parsed
  attributes, and \<^verbatim>\<open>get_num_columns(path)\<close>, \<open>None\<close> for a file with no row.
\<close>

record environment =
  EXOMOL_DATA_DIR :: path
  is_dir :: "path \<Rightarrow> bool"
  is_file :: "path \<Rightarrow> bool"
  glob_sorted :: "path \<Rightarrow> string \<Rightarrow> path list"
  def_parser :: "path \<Rightarrow> string + def_parser_result"
  get_num_columns :: "path \<Rightarrow> nat option"

text \<open>The keyword arguments of one molecule of \<^verbatim>\<open>molecules.json\<close>, with their stubs.\<close>

record 'v mol_config =
  cfg_mol_slug :: "string option"
  cfg_iso_slug :: "string option"
  cfg_dataset_name :: "string option"
  cfg_states_header :: "string list option"
  cfg_resolve_el :: "string list"
  cfg_resolve_vib :: "string list"
  cfg_energy_max :: flt
  cfg_only_with :: "(string \<times> 'v) list"

record 'v molecule_input =
  formula :: string
  mol_slug :: string
  iso_slug :: string
  dataset_name :: string
  mi_states_header :: "string list"
  mi_resolve_el :: "string list"
  mi_resolve_vib :: "string list"
  mi_energy_max :: flt
  mi_only_with :: "(string \<times> 'v) list"
  def_path :: path
  states_path :: path
  trans_paths :: "path list"

text \<open>Python's truth value of an optional string: \<^verbatim>\<open>None\<close> and \<^verbatim>\<open>''\<close> are false.\<close>

fun truthy :: "string option \<Rightarrow> bool" where
  "truthy None = False"
| "truthy (Some s) = (s \<noteq> [])"

fun slug :: "string option \<Rightarrow> string" where
  "slug None = []"
| "slug (Some s) = s"

definition fixed_columns :: "string list" where
  "fixed_columns = [''i'', ''E'', ''g_tot'', ''J'', ''tau'', ''g_J'']"

text \<open>
  The second half of \<^verbatim>\<open>MoleculeInput.__init__\<close>, from the check of the common values
  of the two resolve lists on; \<open>seen\<close> holds the accesses made before it.
\<close>

definition validate_quanta ::
  "environment \<Rightarrow> string \<Rightarrow> 'v mol_config \<Rightarrow> path \<Rightarrow> path \<Rightarrow> path list \<Rightarrow> string list
    \<Rightarrow> fs_access list \<Rightarrow> (input_error + 'v molecule_input) \<times> fs_access list" where
  "validate_quanta env molecule_formula kwargs def_p states_p trans_ps header seen =
     (let resolved_quanta = set (cfg_resolve_el kwargs @ cfg_resolve_vib kwargs);
          quanta_available = set header - set fixed_columns
      in
      if set (cfg_resolve_el kwargs) \<inter> set (cfg_resolve_vib kwargs) \<noteq> {}
      then (Inl (MoleculeInputError CommonResolve), seen)
      else if resolved_quanta \<inter> set fixed_columns \<noteq> {}
      then (Inl (MoleculeInputError UnsupportedResolve), seen)
      else if \<not> resolved_quanta \<subseteq> quanta_available
      then (Inl (MoleculeInputError UnsupportedResolve), seen)
      else if \<not> set (map fst (cfg_only_with kwargs)) \<subseteq> quanta_available \<union> {''J''}
      then (Inl (MoleculeInputError UnrecognisedOnlyWith), seen)
      else
        let seen8 = seen @ [NumColumns states_p] in
        if Some (length header) \<noteq> get_num_columns env states_p
        then (Inl (MoleculeInputError StatesColumns), seen8)
        else
          let seen9 = seen8 @ [NumColumns (hd trans_ps)] in
          if get_num_columns env (hd trans_ps) \<notin> {Some 3, Some 4}
          then (Inl (MoleculeInputError TransColumns), seen9)
          else
            (Inr \<lparr>formula = molecule_formula,
                  mol_slug = slug (cfg_mol_slug kwargs),
                  iso_slug = slug (cfg_iso_slug kwargs),
                  dataset_name = slug (cfg_dataset_name kwargs),
                  mi_states_header = header,
                  mi_resolve_el = cfg_resolve_el kwargs,
                  mi_resolve_vib = cfg_resolve_vib kwargs,
                  mi_energy_max = cfg_energy_max kwargs,
                  mi_only_with = cfg_only_with kwargs,
                  def_path = def_p, states_path = states_p, trans_paths = trans_ps\<rparr>, seen9))"

text \<open>
  The states header: parsed from the path handed to \<^verbatim>\<open>DefParser\<close> when the input gives
  none, checked in its first four names otherwise.
\<close>

definition derive_states_header ::
  "environment \<Rightarrow> 'v mol_config \<Rightarrow> path \<Rightarrow> fs_access list
    \<Rightarrow> (input_error + string list) \<times> fs_access list" where
  "derive_states_header env kwargs states_p seen =
     (case cfg_states_header kwargs of
        None \<Rightarrow>
          (case def_parser env states_p of
             Inl m \<Rightarrow> (Inl (DefParseError m), seen @ [ParseDef states_p])
           | Inr p \<Rightarrow>
               (Inr ([''i'', ''E'', ''g_tot'', ''J'']
                     @ (if parsed_lifetime_availability p then [''tau''] else [])
                     @ (if parsed_lande_factor_availability p then [''g_J''] else [])
                     @ parsed_quanta_labels p), seen @ [ParseDef states_p]))
      | Some h \<Rightarrow>
          (if take 4 h \<noteq> [''i'', ''E'', ''g_tot'', ''J'']
           then (Inl (MoleculeInputError UnexpectedStatesHeader), seen)
           else (Inr h, seen)))"

text \<open>
  \<^verbatim>\<open>MoleculeInput.__init__\<close>: the result (the error raised, or the attributes of the
  instance) and the accesses to the file system made on the way.
\<close>

definition MoleculeInput_init ::
  "environment \<Rightarrow> string \<Rightarrow> 'v mol_config
    \<Rightarrow> (input_error + 'v molecule_input) \<times> fs_access list" where
  "MoleculeInput_init env molecule_formula kwargs =
     (if \<not> list_all truthy [cfg_mol_slug kwargs, cfg_iso_slug kwargs, cfg_dataset_name kwargs]
      then (Inl (MoleculeInputError MissingMandatory), [])
      else if \<not> list_ex (\<lambda>n. n \<noteq> 0)
                   [length (cfg_resolve_el kwargs), length (cfg_resolve_vib kwargs)]
      then (Inl (MoleculeInputError MissingResolve), [])
      else
        let mol_root = EXOMOL_DATA_DIR env @ [slug (cfg_mol_slug kwargs)];
            seen1 = [IsDir mol_root]
        in if \<not> is_dir env mol_root then (Inl (MoleculeInputError MolDirNotFound), seen1) else
        let iso_root = mol_root @ [slug (cfg_iso_slug kwargs)];
            seen2 = seen1 @ [IsDir iso_root]
        in if \<not> is_dir env iso_root then (Inl (MoleculeInputError IsoDirNotFound), seen2) else
        let ds_root = iso_root @ [slug (cfg_dataset_name kwargs)];
            seen3 = seen2 @ [IsDir ds_root]
        in if \<not> is_dir env ds_root then (Inl (MoleculeInputError DatasetDirNotFound), seen3) else
        let file_name_stem = slug (cfg_iso_slug kwargs) @ ''__'' @ slug (cfg_dataset_name kwargs);
            def_p = ds_root @ [file_name_stem @ ''.def''];
            seen4 = seen3 @ [IsFile def_p]
        in if \<not> is_file env def_p then (Inl (MoleculeInputError DefFileNotFound), seen4) else
        let states_p = ds_root @ [file_name_stem @ ''.states.bz2''];
            seen5 = seen4 @ [IsFile states_p]
        in if \<not> is_file env states_p then (Inl (MoleculeInputError StatesFileNotFound), seen5) else
        let trans_wc = file_name_stem @ ''*.trans.bz2'';
            trans_ps = glob_sorted env ds_root trans_wc;
            seen6 = seen5 @ [Glob ds_root trans_wc]
        in if length trans_ps = 0 then (Inl (MoleculeInputError NoTransFiles), seen6) else
        (case derive_states_header env kwargs states_p seen6 of
           (Inl e, seen7) \<Rightarrow> (Inl e, seen7)
         | (Inr header, seen7) \<Rightarrow>
             validate_quanta env molecule_formula kwargs def_p states_p trans_ps header seen7))"

text \<open>
  \<^verbatim>\<open>DatasetProcessor.__init__\<close> on a \<^verbatim>\<open>MoleculeInput\<close>, which has all four optional
  attributes: the three name lists are checked against \<^verbatim>\<open>states_header[4:]\<close> in turn.
\<close>

definition DatasetProcessor_init :: "'v molecule_input \<Rightarrow> input_error + 'v dataset_processor" where
  "DatasetProcessor_init molecule_input =
     (if \<not> length (mi_resolve_el molecule_input) \<noteq> 0
         \<and> \<not> length (mi_resolve_vib molecule_input) \<noteq> 0
      then Inl (MoleculeInputError NeedsResolve)
      else
        case find (\<lambda>(name, qs). \<not> set qs \<subseteq> set (drop 4 (mi_states_header molecule_input)))
               [(''resolve_el'', mi_resolve_el molecule_input),
                (''resolve_vib'', mi_resolve_vib molecule_input),
                (''only_with'', map fst (mi_only_with molecule_input))] of
          Some (name, qs) \<Rightarrow> Inl (MoleculeInputError (Unrecognised name))
        | None \<Rightarrow>
            Inr \<lparr>states_header = mi_states_header molecule_input,
                 resolve_el = mi_resolve_el molecule_input,
                 resolve_vib = mi_resolve_vib molecule_input,
                 only_with = mi_only_with molecule_input,
                 energy_max = Some (mi_energy_max molecule_input),
                 resolved_quanta = mi_resolve_el molecule_input @ mi_resolve_vib molecule_input,
                 lumped_states = None,
                 states_map_lumped_to_original = Map.empty,
                 states_map_original_to_lumped = Map.empty\<rparr>)"

section \<open>Example data\<close>

text \<open>
  A molecule input with one resolved column \<^verbatim>\<open>v\<close> and no filter, the processor built
  from it, and states rows whose other columns all hold the value \<open>v\<close>.
\<close>

definition example_input :: "int molecule_input" where
  "example_input =
     \<lparr>formula = ''HCN'', mol_slug = ''HCN'', iso_slug = ''1H-12C-14N'', dataset_name = ''Harris'',
      mi_states_header = [''i'', ''E'', ''g_tot'', ''J'', ''v''],
      mi_resolve_el = [], mi_resolve_vib = [''v''], mi_energy_max = PInf, mi_only_with = [],
      def_path = [''data'', ''HCN'', ''1H-12C-14N'', ''Harris'', ''1H-12C-14N__Harris.def''],
      states_path = [''data'', ''HCN'', ''1H-12C-14N'', ''Harris'', ''1H-12C-14N__Harris.states.bz2''],
      trans_paths = [[''data'', ''HCN'', ''1H-12C-14N'', ''Harris'', ''1H-12C-14N__Harris.trans.bz2'']]\<rparr>"

definition example_processor :: "int dataset_processor" where
  "example_processor =
     \<lparr>states_header = [''i'', ''E'', ''g_tot'', ''J'', ''v''],
      resolve_el = [], resolve_vib = [''v''], only_with = [], energy_max = Some PInf,
      resolved_quanta = [''v''], lumped_states = None,
      states_map_lumped_to_original = Map.empty, states_map_original_to_lumped = Map.empty\<rparr>"

definition example_row :: "int \<Rightarrow> rat \<Rightarrow> rat \<Rightarrow> rat \<Rightarrow> int \<Rightarrow> int state_row" where
  "example_row i e g j v = \<lparr>idx = i, E = e, g_tot = g, J = j, cols = (\<lambda>c. v)\<rparr>"

text \<open>
  A data directory in which every directory and file exists, the definition file parses
  and the states file, which is no definition file, does not; and the configuration of
  one molecule that resolves \<^verbatim>\<open>v\<close> and gives no states header.
\<close>

definition example_env :: environment where
  "example_env =
     \<lparr>EXOMOL_DATA_DIR = [''data''],
      is_dir = (\<lambda>p. True),
      is_file = (\<lambda>p. True),
      glob_sorted = (\<lambda>d w. [d @ [''1H-12C-14N__Harris.trans.bz2'']]),
      def_parser = (\<lambda>p. if p = [''data'', ''HCN'', ''1H-12C-14N'', ''Harris'', ''1H-12C-14N__Harris.def'']
                        then Inr \<lparr>parsed_lifetime_availability = False,
                                  parsed_lande_factor_availability = False,
                                  parsed_quanta_labels = [''v'']\<rparr>
                        else Inl ''not a definition file''),
      get_num_columns = (\<lambda>p. if p = [''data'', ''HCN'', ''1H-12C-14N'', ''Harris'',
                                        ''1H-12C-14N__Harris.states.bz2'']
                             then Some 5 else Some 4)\<rparr>"

definition example_config :: "int mol_config" where
  "example_config =
     \<lparr>cfg_mol_slug = Some ''HCN'', cfg_iso_slug = Some ''1H-12C-14N'',
      cfg_dataset_name = Some ''Harris'', cfg_states_header = None,
      cfg_resolve_el = [], cfg_resolve_vib = [''v''], cfg_energy_max = PInf,
      cfg_only_with = []\<rparr>"


section \<open>Properties of the line parser\<close>

lemma pop_line_left:
  "fst (snd (pop_line n f rw ws lines)) = drop 1 (dropWhile (\<lambda>l. strip l = []) lines)"
  by (induction lines arbitrary: ws) (simp_all add: Let_def)




lemma parse_exomol_line_left:
  "fst (snd (parse_exomol_line lines n_orig expected_comment file_name val_type raise_warnings))
     = drop 1 (dropWhile (\<lambda>l. strip l = []) lines)"
proof -
  obtain r ls ws where p: "pop_line n_orig file_name raise_warnings [] lines = (r, ls, ws)"
    by (cases "pop_line n_orig file_name raise_warnings [] lines") auto
  have ls: "ls = drop 1 (dropWhile (\<lambda>l. strip l = []) lines)"
    using pop_line_left [of n_orig file_name raise_warnings "[]" lines] p by simp
  show ?thesis
    unfolding parse_exomol_line_def p
    by (simp add: ls Let_def split: option.splits list.splits prod.splits)
qed

text \<open>
  Claim C10. Every call of \<^verbatim>\<open>parse_exomol_line\<close> leaves the caller's list without its
  leading blank lines and without the line it consumed, whatever the call returns or
  raises: the popped line is not put back on an error.
\<close>

theorem parse_exomol_line_pops:
  "fst (snd (parse_exomol_line lines n_orig expected_comment file_name val_type raise_warnings))
     = drop 1 (dropWhile (\<lambda>l. strip l = []) lines)"
  by (rule parse_exomol_line_left)

text \<open>
  The third call of the docstring, after one more blank line: the line without a
  comment is gone from the list although the call raised.
\<close>

theorem parse_exomol_line_pops_witness:
  "parse_exomol_line [''   '', ''val3             '', ''val4   # comment4''] 4 None (Some ''C60.def'')
      (None :: (string \<Rightarrow> int option) option) False
    = (Inl (ExomolLineCommentError ''Unexpected line format detected on line 3 in C60.def''),
       [''val4   # comment4''], [])
   \<and> drop 1 (dropWhile (\<lambda>l. strip l = []) [''   '', ''val3             '', ''val4   # comment4''])
       = [''val4   # comment4'']"
  using parse_exomol_line_pops [of "[''   '', ''val3             '', ''val4   # comment4'']" 4 None
      "Some ''C60.def''" "None :: (string \<Rightarrow> int option) option" False]
  by (simp add: parse_exomol_line_def strip_def is_space_def str_int_def Let_def)




section \<open>Properties of the state lumping\<close>

lemma process_state_group_snd:
  "snd (process_state_group dp m (r # rs))
     = m(group_key dp r \<mapsto>
          (case m (group_key dp r) of None \<Rightarrow> {} | Some s \<Rightarrow> s) \<union> idx ` set (r # rs))"
  by (simp add: Let_def)

lemma process_state_group_fst:
  "fst (process_state_group dp m (r # rs)) = fst (process_state_group dp m' (r # rs))"
  by (simp add: Let_def)

lemma group_nonempty:
  assumes "r \<in> set chunk" "group_key dp r = k"
  shows "\<exists>x xs. filter (\<lambda>r. group_key dp r = k) chunk = x # xs \<and> group_key dp x = k"
proof -
  have "filter (\<lambda>r. group_key dp r = k) chunk \<noteq> []"
    using assms by (auto simp add: filter_empty_conv)
  then obtain x xs where g: "filter (\<lambda>r. group_key dp r = k) chunk = x # xs"
    by (cases "filter (\<lambda>r. group_key dp r = k) chunk") auto
  then have "x \<in> set (filter (\<lambda>r. group_key dp r = k) chunk)" by simp
  then have "group_key dp x = k" by simp
  with g show ?thesis by blast
qed

lemma fold_groups:
  assumes "distinct ks" and "\<forall>k\<in>set ks. \<exists>r\<in>set chunk. group_key dp r = k"
  shows "fold (\<lambda>k (tab, m).
             case process_state_group dp m (filter (\<lambda>r. group_key dp r = k) chunk) of
               (row, m') \<Rightarrow> (tab(k \<mapsto> row), m')) ks (tab, m)
      = ((\<lambda>k. if k \<in> set ks
               then Some (fst (process_state_group dp Map.empty
                                 (filter (\<lambda>r. group_key dp r = k) chunk)))
               else tab k),
         (\<lambda>k. if k \<in> set ks
               then Some ((case m k of None \<Rightarrow> {} | Some s \<Rightarrow> s)
                          \<union> idx ` {r \<in> set chunk. group_key dp r = k})
               else m k))"
  using assms
proof (induction ks arbitrary: tab m)
  case Nil
  then show ?case by simp
next
  case (Cons k ks)
  from Cons.prems(2) obtain r0 where r0: "r0 \<in> set chunk" "group_key dp r0 = k" by auto
  from group_nonempty [OF r0] obtain x xs
    where g: "filter (\<lambda>r. group_key dp r = k) chunk = x # xs" and kx: "group_key dp x = k"
    by blast
  have ids: "idx ` set (x # xs) = idx ` {r \<in> set chunk. group_key dp r = k}"
    using g [symmetric] by auto
  obtain row m' where st: "process_state_group dp m (x # xs) = (row, m')"
    by (cases "process_state_group dp m (x # xs)") auto
  have row: "row = fst (process_state_group dp Map.empty (x # xs))"
    using st process_state_group_fst [of dp m x xs Map.empty] by simp
  have m': "m' = m(k \<mapsto> (case m k of None \<Rightarrow> {} | Some s \<Rightarrow> s)
                          \<union> idx ` {r \<in> set chunk. group_key dp r = k})"
  proof -
    have "m' = snd (process_state_group dp m (x # xs))" by (simp only: st snd_conv)
    then show ?thesis unfolding process_state_group_snd kx ids .
  qed
  have d: "distinct ks" and nk: "k \<notin> set ks" using Cons.prems(1) by auto
  have ex: "\<forall>k\<in>set ks. \<exists>r\<in>set chunk. group_key dp r = k" using Cons.prems(2) by auto
  show ?case
    apply (simp only: fold_Cons comp_apply prod.case g st)
    apply (subst Cons.IH [OF d ex])
    using nk apply (auto simp add: row m' g fun_eq_iff simp del: process_state_group.simps)
    done
qed

lemma apply_groups_eq:
  "apply_groups dp m chunk
     = ((\<lambda>k. if \<exists>r\<in>set chunk. group_key dp r = k
              then Some (fst (process_state_group dp Map.empty
                                (filter (\<lambda>r. group_key dp r = k) chunk)))
              else None),
        (\<lambda>k. if \<exists>r\<in>set chunk. group_key dp r = k
              then Some ((case m k of None \<Rightarrow> {} | Some s \<Rightarrow> s)
                         \<union> idx ` {r \<in> set chunk. group_key dp r = k})
              else m k))"
proof -
  have 1: "distinct (remdups (map (group_key dp) chunk))" by simp
  have 2: "\<forall>k\<in>set (remdups (map (group_key dp) chunk)). \<exists>r\<in>set chunk. group_key dp r = k"
    by auto
  have 3: "\<And>k. k \<in> set (remdups (map (group_key dp) chunk)) \<longleftrightarrow> (\<exists>r\<in>set chunk. group_key dp r = k)"
    by auto
  show ?thesis
    unfolding apply_groups_def fold_groups [OF 1 2] 3 by simp
qed

lemma process_chunk_snd:
  "snd (process_chunk dp (t, m) chunk) k
     = (if \<exists>r\<in>set chunk. survives dp r \<and> group_key dp r = k
        then Some ((case m k of None \<Rightarrow> {} | Some s \<Rightarrow> s)
                   \<union> idx ` {r \<in> set chunk. survives dp r \<and> group_key dp r = k})
        else m k)"
proof -
  have s: "{r \<in> set (filter (survives dp) chunk). group_key dp r = k}
            = {r \<in> set chunk. survives dp r \<and> group_key dp r = k}" by auto
  have e: "(\<exists>r\<in>set (filter (survives dp) chunk). group_key dp r = k)
            = (\<exists>r\<in>set chunk. survives dp r \<and> group_key dp r = k)" by auto
  have "snd (process_chunk dp (t, m) chunk) = snd (apply_groups dp m (filter (survives dp) chunk))"
    by (simp add: process_chunk_def Let_def split: prod.splits)
  then show ?thesis
    by (simp only: apply_groups_eq snd_conv e s)
qed

lemma fold_chunks_snd:
  "snd (fold (\<lambda>chunk st. process_chunk dp st chunk) chunks (t, m)) k
     = (if \<exists>r\<in>set (concat chunks). survives dp r \<and> group_key dp r = k
        then Some ((case m k of None \<Rightarrow> {} | Some s \<Rightarrow> s)
                   \<union> idx ` {r \<in> set (concat chunks). survives dp r \<and> group_key dp r = k})
        else m k)"
proof (induction chunks arbitrary: t m)
  case Nil
  then show ?case by simp
next
  case (Cons c cs)
  obtain t' m' where st: "process_chunk dp (t, m) c = (t', m')"
    by (cases "process_chunk dp (t, m) c") auto
  have m': "\<And>k. m' k = (if \<exists>r\<in>set c. survives dp r \<and> group_key dp r = k
        then Some ((case m k of None \<Rightarrow> {} | Some s \<Rightarrow> s)
                   \<union> idx ` {r \<in> set c. survives dp r \<and> group_key dp r = k})
        else m k)"
    using process_chunk_snd [of dp t m c] st by simp
  show ?case
    apply (simp only: fold_Cons comp_apply st Cons.IH m')
    apply (auto split: option.splits)
    done
qed

lemma lt_fill_NaN_left: "lt_fill NaN b = False"
  by (cases b) (simp_all add: lt_fill_def)

lemma lt_fill_Fin_NaN: "lt_fill (Fin a) NaN = True"
  by (simp add: lt_fill_def)

lemma flt_eq_NaN_right: "flt_eq a NaN = False"
  by (cases a) simp_all

lemma process_state_group_form:
  "\<exists>j w ew. fst (process_state_group dp m (r # rs))
              = \<lparr>lump_J = Fin j, sum_w = Fin w, sum_en_x_w = Fin ew\<rparr>"
  by (simp add: Let_def)

lemma process_chunk_fst:
  "fst (process_chunk dp (t, m) chunk) k =
     (case filter (\<lambda>r. group_key dp r = k) (filter (survives dp) chunk) of
        [] \<Rightarrow> map_option (\<lambda>row. \<lparr>lump_J = NaN, sum_w = NaN, sum_en_x_w = NaN\<rparr>) (t k)
      | r # rs \<Rightarrow>
          (if lt_fill (lump_J (fst (process_state_group dp Map.empty (r # rs)))) (cell t lump_J k)
           then Some (fst (process_state_group dp Map.empty (r # rs)))
           else Some \<lparr>lump_J = NaN, sum_w = NaN, sum_en_x_w = NaN\<rparr>))"
proof (cases "filter (\<lambda>r. group_key dp r = k) (filter (survives dp) chunk)")
  case Nil
  then have no: "\<not> (\<exists>r\<in>set (filter (survives dp) chunk). group_key dp r = k)"
    by (auto simp add: filter_empty_conv)
  show ?thesis
    unfolding process_chunk_def apply_groups_eq
    by (cases "t k")
       (simp_all add: Nil no Let_def cell_def lt_fill_NaN_left flt_eq_NaN_right domIff
          del: set_filter filter_filter)
next
  case (Cons r rs)
  then have "r \<in> set (filter (\<lambda>r. group_key dp r = k) (filter (survives dp) chunk))" by simp
  then have ex: "\<exists>r\<in>set (filter (survives dp) chunk). group_key dp r = k" by auto
  obtain j w ew where crow: "fst (process_state_group dp Map.empty (r # rs))
              = \<lparr>lump_J = Fin j, sum_w = Fin w, sum_en_x_w = Fin ew\<rparr>"
    using process_state_group_form by blast
  show ?thesis
  proof (cases "lt_fill (Fin j) (cell t lump_J k)")
    case True
    show ?thesis
      unfolding process_chunk_def apply_groups_eq
      using True
      by (simp add: Cons ex crow Let_def cell_def domIff
            del: set_filter filter_filter process_state_group.simps split: option.splits)
  next
    case False
    then have "t k \<noteq> None" by (cases "t k") (simp_all add: cell_def lt_fill_Fin_NaN)
    then show ?thesis
      unfolding process_chunk_def apply_groups_eq
      using False
      by (simp add: Cons ex crow Let_def cell_def domIff
            del: set_filter filter_filter process_state_group.simps split: option.splits)
  qed
qed

lemma example_processor_init: "DatasetProcessor_init example_input = Inr example_processor"
  by (simp add: DatasetProcessor_init_def example_input_def example_processor_def)


lemma process_chunk_fst_st:
  "fst (process_chunk dp st chunk) k =
     (case filter (\<lambda>r. group_key dp r = k) (filter (survives dp) chunk) of
        [] \<Rightarrow> map_option (\<lambda>row. \<lparr>lump_J = NaN, sum_w = NaN, sum_en_x_w = NaN\<rparr>) (fst st k)
      | r # rs \<Rightarrow>
          (if lt_fill (lump_J (fst (process_state_group dp Map.empty (r # rs))))
                (cell (fst st) lump_J k)
           then Some (fst (process_state_group dp Map.empty (r # rs)))
           else Some \<lparr>lump_J = NaN, sum_w = NaN, sum_en_x_w = NaN\<rparr>))"
  by (cases st) (simp only: process_chunk_fst fst_conv)

lemma process_chunk_snd_st:
  "snd (process_chunk dp st chunk) k
     = (if \<exists>r\<in>set chunk. survives dp r \<and> group_key dp r = k
        then Some ((case snd st k of None \<Rightarrow> {} | Some s \<Rightarrow> s)
                   \<union> idx ` {r \<in> set chunk. survives dp r \<and> group_key dp r = k})
        else snd st k)"
  by (cases st) (simp only: process_chunk_snd snd_conv)

lemma lumped_states_process_states:
  "lumped_states (process_states dp states_chunks)
     = Some (\<lambda>k. map_option finalise
                    (fst (fold (\<lambda>chunk st. process_chunk dp st chunk) states_chunks
                            (Map.empty, states_map_lumped_to_original dp)) k))"
  by (simp add: process_states_def split: prod.splits)

lemma lumped_to_original_process_states:
  "states_map_lumped_to_original (process_states dp states_chunks)
     = snd (fold (\<lambda>chunk st. process_chunk dp st chunk) states_chunks
              (Map.empty, states_map_lumped_to_original dp))"
  by (simp add: process_states_def split: prod.splits)

lemmas ex_simps = example_processor_def example_row_def lumped_states_process_states
  process_chunk_fst_st survives_def group_key_def cell_def lt_fill_def finalise_def flt_le_def
  rint_def Let_def

text \<open>
  Claim C1 fails on the code. Two rows of one group, the first with the lower energy and
  the higher \<^verbatim>\<open>J\<close>: read as one chunk they lump to \<^verbatim>\<open>J = 5\<close>, \<^verbatim>\<open>E = 10\<close>; read in chunks
  of one row, the second chunk resets the group, because \<^verbatim>\<open>reset_mask\<close> compares the
  values of \<^verbatim>\<open>J\<close> and not the energies, and the result is \<^verbatim>\<open>J = 1\<close>, \<^verbatim>\<open>E = 12\<close>.
\<close>

theorem chunk_size_changes_result:
  "map_option (\<lambda>t. t [0]) (lumped_states (process_states example_processor
       (chunks_of 2 [example_row 1 10 2 5 0, example_row 2 12 5 1 0])))
     = Some (Some \<lparr>final_J = Fin 5, final_E = Fin 10\<rparr>)
   \<and> map_option (\<lambda>t. t [0]) (lumped_states (process_states example_processor
       (chunks_of 1 [example_row 1 10 2 5 0, example_row 2 12 5 1 0])))
     = Some (Some \<lparr>final_J = Fin 1, final_E = Fin 12\<rparr>)"
  by (simp add: ex_simps)

text \<open>
  Claim C2 fails on the code. After a first chunk has given the group the running row
  \<^verbatim>\<open>J = 1\<close>, \<^verbatim>\<open>sum_w = 2\<close>, \<^verbatim>\<open>sum_en_x_w = 20\<close>, a chunk with a lower energy at
  \<^verbatim>\<open>J = 3\<close> does not reset the row to the chunk's values, and a chunk with the same
  \<^verbatim>\<open>J = 1\<close> does not add its sums: in both cases the new table, created without
  data, keeps NaN in the row.
\<close>

theorem merge_loses_running_aggregate:
  "fst (process_chunk example_processor (Map.empty, Map.empty) [example_row 1 10 2 1 0]) [0]
     = Some \<lparr>lump_J = Fin 1, sum_w = Fin 2, sum_en_x_w = Fin 20\<rparr>
   \<and> fst (process_chunk example_processor
          (process_chunk example_processor (Map.empty, Map.empty) [example_row 1 10 2 1 0])
          [example_row 2 5 1 3 0]) [0]
     = Some \<lparr>lump_J = NaN, sum_w = NaN, sum_en_x_w = NaN\<rparr>
   \<and> fst (process_chunk example_processor
          (process_chunk example_processor (Map.empty, Map.empty) [example_row 1 10 2 1 0])
          [example_row 3 10 3 1 0]) [0]
     = Some \<lparr>lump_J = NaN, sum_w = NaN, sum_en_x_w = NaN\<rparr>"
  by (simp add: ex_simps)

lemma original_to_lumped_unchanged:
  "states_map_original_to_lumped (process_states dp states_chunks)
     = states_map_original_to_lumped dp"
  by (simp add: process_states_def split: prod.splits)

text \<open>
  Claim C3 fails on the code. \<^verbatim>\<open>states_map_original_to_lumped\<close> is set to the empty
  dictionary by the constructor and written nowhere else: after one surviving row,
  index 1 is a member of its group in \<^verbatim>\<open>states_map_lumped_to_original\<close> and has no
  entry in \<^verbatim>\<open>states_map_original_to_lumped\<close>.
\<close>

theorem original_to_lumped_stays_empty:
  "DatasetProcessor_init example_input = Inr example_processor
   \<and> states_map_lumped_to_original (process_states example_processor [[example_row 1 10 2 0 0]]) [0]
     = Some {1}
   \<and> states_map_original_to_lumped (process_states example_processor [[example_row 1 10 2 0 0]]) 1
     = None"
proof -
  have "{r. r = example_row 1 10 2 0 0 \<and> survives example_processor r
            \<and> group_key example_processor r = [0]} = {example_row 1 10 2 0 0}"
    by (auto simp add: example_row_def example_processor_def survives_def group_key_def flt_le_def)
  then have "states_map_lumped_to_original
               (process_states example_processor [[example_row 1 10 2 0 0]]) [0] = Some {1}"
    by (simp add: lumped_to_original_process_states process_chunk_snd_st)
       (simp add: example_row_def example_processor_def survives_def group_key_def flt_le_def)
  moreover have "states_map_original_to_lumped
               (process_states example_processor [[example_row 1 10 2 0 0]]) 1 = None"
    by (simp add: original_to_lumped_unchanged example_processor_def)
  ultimately show ?thesis using example_processor_init by simp
qed






lemma lumped_to_original_final:
  assumes "states_map_lumped_to_original dp = Map.empty"
  shows "states_map_lumped_to_original (process_states dp states_chunks) k
     = (if \<exists>r\<in>set (concat states_chunks). survives dp r \<and> group_key dp r = k
        then Some (idx ` {r \<in> set (concat states_chunks). survives dp r \<and> group_key dp r = k})
        else None)"
  unfolding lumped_to_original_process_states assms
  by (simp only: fold_chunks_snd) simp

text \<open>The membership map, unlike the table, is the same for every chunk size.\<close>

lemma concat_chunks_of: "0 < n \<Longrightarrow> concat (chunks_of n xs) = xs"
proof (induction n xs rule: chunks_of.induct)
  case (1 n xs)
  show ?case
  proof (cases "xs = []")
    case True
    then show ?thesis by simp
  next
    case False
    with "1.prems" have "concat (chunks_of n (drop n xs)) = drop n xs"
      using "1.IH" by simp
    with False "1.prems" show ?thesis
      by (subst chunks_of.simps) simp
  qed
qed

lemma lumped_to_original_chunk_independent:
  assumes "states_map_lumped_to_original dp = Map.empty" and "0 < n" and "0 < n'"
  shows "states_map_lumped_to_original (process_states dp (chunks_of n rows))
           = states_map_lumped_to_original (process_states dp (chunks_of n' rows))"
  by (rule ext) (simp only: lumped_to_original_final [OF assms(1)] concat_chunks_of assms(2,3))



section \<open>Properties of the input validation\<close>

lemma get_states_header_eq:
  "get_states_header d =
     [''i'', ''E'', ''g_tot'', ''J'']
     @ (if lifetime_availability d then [''tau''] else [])
     @ (if lande_factor_availability d then [''g_J''] else [])
     @ map label (quanta d)"
  by (simp add: get_states_header_def get_states_header_mandatory_def get_quanta_labels_def)

lemma derive_states_header_parsed:
  assumes "cfg_states_header kwargs = None" and "def_parser env p = Inr d"
  shows "derive_states_header env kwargs p seen =
           (Inr ([''i'', ''E'', ''g_tot'', ''J'']
                 @ (if parsed_lifetime_availability d then [''tau''] else [])
                 @ (if parsed_lande_factor_availability d then [''g_J''] else [])
                 @ parsed_quanta_labels d), seen @ [ParseDef p])"
  using assms by (simp add: derive_states_header_def)

lemmas init_simps = MoleculeInput_init_def derive_states_header_def validate_quanta_def
  example_env_def example_config_def fixed_columns_def Let_def

text \<open>
  Claim C6 fails on the code. With no states header in the input, the constructor hands
  \<^verbatim>\<open>self.states_path\<close> to \<^verbatim>\<open>DefParser\<close>, not \<^verbatim>\<open>self.def_path\<close>: where the definition
  file parses and the states file does not, construction ends in \<^verbatim>\<open>DefParseError\<close>,
  although the derivation run on the definition file gives the header of the claim.
\<close>

theorem def_parser_reads_states_path:
  "def_parser example_env [''data'', ''HCN'', ''1H-12C-14N'', ''Harris'', ''1H-12C-14N__Harris.def'']
     = Inr \<lparr>parsed_lifetime_availability = False, parsed_lande_factor_availability = False,
            parsed_quanta_labels = [''v'']\<rparr>
   \<and> fst (derive_states_header example_env example_config
             [''data'', ''HCN'', ''1H-12C-14N'', ''Harris'', ''1H-12C-14N__Harris.def''] [])
     = Inr [''i'', ''E'', ''g_tot'', ''J'', ''v'']
   \<and> MoleculeInput_init example_env ''HCN'' example_config
     = (Inl (DefParseError ''not a definition file''),
        [IsDir [''data'', ''HCN''],
         IsDir [''data'', ''HCN'', ''1H-12C-14N''],
         IsDir [''data'', ''HCN'', ''1H-12C-14N'', ''Harris''],
         IsFile [''data'', ''HCN'', ''1H-12C-14N'', ''Harris'', ''1H-12C-14N__Harris.def''],
         IsFile [''data'', ''HCN'', ''1H-12C-14N'', ''Harris'', ''1H-12C-14N__Harris.states.bz2''],
         Glob [''data'', ''HCN'', ''1H-12C-14N'', ''Harris''] ''1H-12C-14N__Harris*.trans.bz2'',
         ParseDef [''data'', ''HCN'', ''1H-12C-14N'', ''Harris'', ''1H-12C-14N__Harris.states.bz2'']])"
  by (simp add: init_simps)

text \<open>
  Claim C8 fails on the code. An \<^verbatim>\<open>only_with\<close> on \<^verbatim>\<open>J\<close> passes the check of
  \<^verbatim>\<open>MoleculeInput\<close>, and the \<^verbatim>\<open>DatasetProcessor\<close> built from that input raises
  \<^verbatim>\<open>MoleculeInputError\<close>, since \<^verbatim>\<open>J\<close> is not among \<^verbatim>\<open>states_header[4:]\<close>.
\<close>

theorem only_with_J_rejected_by_processor:
  "fst (MoleculeInput_init example_env ''HCN''
          (example_config\<lparr>cfg_states_header := Some [''i'', ''E'', ''g_tot'', ''J'', ''v''],
                          cfg_only_with := [(''J'', 0)]\<rparr>))
     = Inr (example_input\<lparr>mi_only_with := [(''J'', 0)]\<rparr>)
   \<and> DatasetProcessor_init (example_input\<lparr>mi_only_with := [(''J'', 0)]\<rparr>)
     = Inl (MoleculeInputError (Unrecognised ''only_with''))"
  by (simp add: init_simps example_input_def DatasetProcessor_init_def)




lemma derive_states_header_seen:
  "derive_states_header env kwargs p seen = (r, seen') \<Longrightarrow> seen \<noteq> [] \<Longrightarrow> seen' \<noteq> []"
  by (auto simp add: derive_states_header_def split: option.splits sum.splits if_splits)






end
